theory Spec2Isabelle
  imports Main "HOL-Library.Sublist"
begin

section \<open>The ShareX handler (router.go): upload and download request handling\<close>

text \<open>
  The two handlers of \<^verbatim>\<open>router.go\<close> are embedded as functions from the handler
  configuration and the request to the ordered list of calls the handler makes on its
  collaborators (the \<^verbatim>\<open>http.ResponseWriter\<close>, the storage and its entries) together
  with the way the invocation ends: by returning or by panicking. Every result an external
  call can give (an error, a part of the multipart stream, a chunk of a read) is an input
  of the model, carried by the records below.
\<close>

subsection \<open>Go values: errors, panics, strings\<close>

text \<open>A Go \<^verbatim>\<open>error\<close> value: \<^verbatim>\<open>io.EOF\<close>, or any other error, identified by its message.\<close>

datatype go_error = EOF | Err string

text \<open>What \<^verbatim>\<open>panic\<close> is raised with: an error value handed to \<^verbatim>\<open>panic(err)\<close>, or a
  run-time error of the Go runtime (a slice bound out of range, a negative \<^verbatim>\<open>make\<close>).\<close>

datatype panic = PanicError go_error | RuntimeError string

datatype outcome = Returned | Panicked panic

text \<open>\<^verbatim>\<open>strings.LastIndex(s, substr)\<close>: the index of the last instance of \<open>substr\<close> in
  \<open>s\<close>, or \<open>-1\<close> when there is none.\<close>

definition LastIndex :: "string \<Rightarrow> string \<Rightarrow> int" where
  "LastIndex s substr =
     (case filter (\<lambda>i. take (length substr) (drop i s) = substr) (rev [0..<Suc (length s)]) of
        [] \<Rightarrow> - 1
      | i # _ \<Rightarrow> int i)"

text \<open>The slice expressions \<^verbatim>\<open>s[i:]\<close> and \<^verbatim>\<open>s[:j]\<close> on a string: the Go runtime panics
  when the index is negative or beyond the length.\<close>

definition slice_from :: "string \<Rightarrow> int \<Rightarrow> panic + string" where
  "slice_from s i =
     (if i < 0 \<or> int (length s) < i then Inl (RuntimeError ''slice bounds out of range'')
      else Inr (drop (nat i) s))"

definition slice_to :: "string \<Rightarrow> int \<Rightarrow> panic + string" where
  "slice_to s j =
     (if j < 0 \<or> int (length s) < j then Inl (RuntimeError ''slice bounds out of range'')
      else Inr (take (nat j) s))"

text \<open>\<^verbatim>\<open>dispositionValueFormat\<close> applied by \<^verbatim>\<open>fmt.Sprintf\<close>:
  \<^verbatim>\<open>%v; filename="%v"\<close>.\<close>

definition dispositionValue :: "string \<Rightarrow> string \<Rightarrow> string" where
  "dispositionValue kind filename =
     kind @ ''; filename='' @ [CHR 0x22] @ filename @ [CHR 0x22]"

subsection \<open>The request\<close>

text \<open>A header set (\<^verbatim>\<open>http.Header\<close>, \<^verbatim>\<open>textproto.MIMEHeader\<close>) and the route variables
  (\<^verbatim>\<open>mux.Vars\<close>) are association lists; \<^verbatim>\<open>Get\<close> on an absent key, like indexing a Go map
  with an absent key, gives the empty string.\<close>

type_synonym header = "(string \<times> string) list"

definition Header_Get :: "header \<Rightarrow> string \<Rightarrow> string" where
  "Header_Get h k = (case map_of h k of None \<Rightarrow> [] | Some v \<Rightarrow> v)"

text \<open>One part of the multipart body, as \<^verbatim>\<open>NextPart\<close> delivers it: its header, its file
  name, and what reading it to the end gives (all its bytes, or a read error).\<close>

record part =
  part_Header :: header
  FileName :: string
  part_content :: "go_error + string"

text \<open>The request. \<open>multipart\<close> is the behaviour of
  \<^verbatim>\<open>multipart.NewReader(req.Body, boundary)\<close>: the parts that successive calls of
  \<^verbatim>\<open>NextPart\<close> return, and the error of the call after the last of them
  (\<^verbatim>\<open>io.EOF\<close> at a clean end of the stream).\<close>

record http_request =
  Header :: header
  Vars :: header
  multipart :: "string \<Rightarrow> part list \<times> go_error"

subsection \<open>The response writer\<close>

text \<open>The calls a handler makes on its \<^verbatim>\<open>http.ResponseWriter\<close>.\<close>

datatype w_call =
    Header_Set string string
  | Header_Del string
  | WriteHeader nat
  | Write string

subsection \<open>The storage collaborator\<close>

text \<open>Modelled from the spec: the \<^verbatim>\<open>Storage\<close> and \<^verbatim>\<open>StorageEntry\<close> interfaces are declared
  outside \<^verbatim>\<open>router.go\<close>. An entry is a value with the metadata its getters return and
  with the result of each of its fallible methods; the setters store what the getters
  return. A writer is the result of each of its \<^verbatim>\<open>Write\<close> calls, by call number; a reader
  is the list of results of its \<^verbatim>\<open>Read\<close> calls (the bytes put in the buffer and the
  error), after which it reports zero bytes and \<^verbatim>\<open>io.EOF\<close>.\<close>

type_synonym writer = "nat \<Rightarrow> go_error option"
type_synonym reader = "(string \<times> go_error option) list"

record storage_entry =
  GetId :: string
  GetFilename :: string
  GetContentType :: string
  GetETagValue :: string
  Save :: "go_error option"
  Update :: "go_error option"
  GetWriter :: "go_error + writer"
  GetReader :: "go_error + reader"

definition SetContentType :: "storage_entry \<Rightarrow> string \<Rightarrow> storage_entry" where
  "SetContentType e ct = e\<lparr>GetContentType := ct\<rparr>"

definition SetFilename :: "storage_entry \<Rightarrow> string \<Rightarrow> storage_entry" where
  "SetFilename e fn = e\<lparr>GetFilename := fn\<rparr>"

record storage =
  NewStorageEntry :: storage_entry
  LoadStorageEntry :: "string \<Rightarrow> bool \<times> go_error option \<times> storage_entry"

subsection \<open>The handler and its observable behaviour\<close>

record PathConfiguration =
  UploadPath :: string
  GetPath :: string

text \<open>The struct \<^verbatim>\<open>ShareXHandler\<close>. The hook \<^verbatim>\<open>OutgoingFunction\<close> is opaque code; it is
  modelled by its documented use, the response headers it sets for a request.
  \<^verbatim>\<open>mime.ParseMediaType\<close> and \<^verbatim>\<open>strings.EqualFold\<close> belong to the Go library and are
  parameters: the first from the header value to an error or the media type and its
  parameters, the second the library's equality of two strings under Unicode case
  folding.\<close>

record ShareXHandler =
  PathConfiguration :: PathConfiguration
  Storage :: storage
  OutgoingFunction :: "(http_request \<Rightarrow> header) option"
  BufferSize :: int
  Path :: string
  ProtocolHost :: string
  WhitelistedContentTypes :: "string list"
  ParseMediaType :: "string \<Rightarrow> go_error + string \<times> header"
  EqualFold :: "string \<Rightarrow> string \<Rightarrow> bool"

text \<open>The calls of a handler invocation, in the order they are made.\<close>

datatype event =
    W w_call
  | Call_NewStorageEntry
  | Call_Save
  | Call_GetWriter
  | Call_SetContentType string
  | Call_SetFilename string
  | Writer_Write string "go_error option"
  | Writer_Close
  | Call_Update
  | Call_LoadStorageEntry string
  | Call_GetReader
  | Reader_Read string "go_error option"
  | Reader_Close

record result =
  trace :: "event list"
  outcome :: outcome

text \<open>\<^verbatim>\<open>http.Error(w, msg, code)\<close> of \<^verbatim>\<open>net/http\<close>, and \<^verbatim>\<open>http.NotFound\<close>.\<close>

definition http_Error :: "string \<Rightarrow> nat \<Rightarrow> event list" where
  "http_Error msg code =
     [W (Header_Del ''Content-Length''),
      W (Header_Set ''Content-Type'' ''text/plain; charset=utf-8''),
      W (Header_Set ''X-Content-Type-Options'' ''nosniff''),
      W (WriteHeader code),
      W (Write (msg @ [CHR 0x0A]))]"

definition http_NotFound :: "event list" where
  "http_NotFound = http_Error ''404 page not found'' 404"

definition internal_error :: "event list" where
  "internal_error = http_Error ''500 an internal error occurred'' 500"

text \<open>What the handler has committed on its response writer, read off the calls: the status
  is that of the first \<^verbatim>\<open>WriteHeader\<close> (a \<^verbatim>\<open>Write\<close> before any \<^verbatim>\<open>WriteHeader\<close> commits
  200), the body is the bytes handed to \<^verbatim>\<open>Write\<close>, and the headers are those set when the
  status is committed. These are facts about the calls; they are what the client is sent
  when the handler returns, and \<open>sent_status\<close> below says what is sent when it does
  not.\<close>

fun status_of :: "event list \<Rightarrow> nat option" where
  "status_of [] = None"
| "status_of (W (WriteHeader c) # es) = Some c"
| "status_of (W (Write d) # es) = Some 200"
| "status_of (e # es) = status_of es"

fun body_of :: "event list \<Rightarrow> string" where
  "body_of [] = []"
| "body_of (W (Write d) # es) = d @ body_of es"
| "body_of (e # es) = body_of es"

fun headers_from :: "(string \<rightharpoonup> string) \<Rightarrow> event list \<Rightarrow> (string \<rightharpoonup> string)" where
  "headers_from h [] = h"
| "headers_from h (W (Header_Set k v) # es) = headers_from (h(k \<mapsto> v)) es"
| "headers_from h (W (Header_Del k) # es) = headers_from (h(k := None)) es"
| "headers_from h (W (WriteHeader c) # es) = h"
| "headers_from h (W (Write d) # es) = h"
| "headers_from h (e # es) = headers_from h es"

definition headers_of :: "event list \<Rightarrow> (string \<rightharpoonup> string)" where
  "headers_of es = headers_from Map.empty es"

text \<open>The status line the server puts on the connection, as \<^verbatim>\<open>net/http\<close> serves a handler.
  The response writer holds the status, the headers and the first body bytes back in a
  buffer of \<^verbatim>\<open>bufferBeforeChunkingSize\<close> bytes; they go out when the handler returns or when
  the body written so far no longer fits the buffer. When the handler panics the server
  closes the connection and what the buffer still holds is dropped: a handler that panics
  before its body has outgrown the buffer has nothing sent, whatever status it wrote.\<close>

definition bufferBeforeChunkingSize :: nat where
  "bufferBeforeChunkingSize = 2048"

definition sent_status :: "result \<Rightarrow> nat option" where
  "sent_status r =
     (if outcome r = Returned \<or> bufferBeforeChunkingSize < length (body_of (trace r))
      then status_of (trace r)
      else None)"

text \<open>The bytes of each \<^verbatim>\<open>Write\<close> on the entry's writer, in order.\<close>

fun writer_writes :: "event list \<Rightarrow> string list" where
  "writer_writes [] = []"
| "writer_writes (Writer_Write d r # es) = d # writer_writes es"
| "writer_writes (e # es) = writer_writes es"

text \<open>The events that are calls on the storage or on one of its entries, writers or
  readers.\<close>

fun is_storage_call :: "event \<Rightarrow> bool" where
  "is_storage_call (W c) = False"
| "is_storage_call e = True"

text \<open>Lines 48 to 50 and 114 to 116: the hook, when there is one.\<close>

definition outgoing :: "ShareXHandler \<Rightarrow> http_request \<Rightarrow> event list" where
  "outgoing h req =
     (case OutgoingFunction h of
        None \<Rightarrow> []
      | Some f \<Rightarrow> map (\<lambda>(k, v). W (Header_Set k v)) (f req))"

subsection \<open>handleUploadRequest\<close>

text \<open>\<^verbatim>\<open>buf.Reset()\<close> followed by \<^verbatim>\<open>io.Copy(buf, part)\<close>: the buffer holds every byte of
  the part, or the copy fails with the part's read error.\<close>

definition io_Copy :: "string \<Rightarrow> part \<Rightarrow> go_error + string" where
  "io_Copy buf p = (case part_content p of Inl err \<Rightarrow> Inl err | Inr d \<Rightarrow> Inr (buf @ d))"

text \<open>The loop of lines 78 to 94, entered with the parts from the current one on and the
  error that ends the stream; \<open>k\<close> counts the writes made so far. The result of
  \<^verbatim>\<open>writer.Write\<close> is not looked at (line 85). The loop ends normally (\<open>None\<close>) at
  \<^verbatim>\<open>io.EOF\<close>, or with the error it panics with.\<close>

fun copy_parts :: "writer \<Rightarrow> nat \<Rightarrow> part list \<Rightarrow> go_error \<Rightarrow> event list \<times> go_error option" where
  "copy_parts wr k [] fin =
     (if fin \<noteq> EOF then (internal_error, Some fin) else ([], None))"
| "copy_parts wr k (p # ps) fin =
     (case io_Copy [] p of
        Inl err \<Rightarrow> (internal_error, Some err)
      | Inr buf \<Rightarrow>
          (case copy_parts wr (Suc k) ps fin of
             (t, r) \<Rightarrow> (Writer_Write buf (wr k) # t, r)))"

text \<open>Lines 68 to 103, between the \<^verbatim>\<open>defer writer.Close()\<close> and its execution. A first
  \<^verbatim>\<open>NextPart\<close> that gives no part panics with its error, \<^verbatim>\<open>io.EOF\<close> included (line 71).
  When \<^verbatim>\<open>Update\<close> fails, line 98 panics with \<^verbatim>\<open>partErr\<close>, which is \<^verbatim>\<open>io.EOF\<close> once the
  loop has ended. The status 200 is written (line 100) before the slice expression of
  line 101 is evaluated.\<close>

definition upload_parts ::
  "ShareXHandler \<Rightarrow> storage_entry \<Rightarrow> string \<Rightarrow> writer \<Rightarrow> part list \<times> go_error \<Rightarrow> result" where
  "upload_parts h entry ident wr mr =
     (case mr of
        ([], partErr) \<Rightarrow> \<lparr>trace = internal_error, outcome = Panicked (PanicError partErr)\<rparr>
      | (p # ps, fin) \<Rightarrow>
          (let ct = Header_Get (part_Header p) ''Content-Type'';
               entry1 = SetFilename (SetContentType entry ct) (FileName p);
               t1 = [Call_SetContentType ct, Call_SetFilename (FileName p)]
           in case copy_parts wr 0 (p # ps) fin of
                (t2, Some err) \<Rightarrow> \<lparr>trace = t1 @ t2, outcome = Panicked (PanicError err)\<rparr>
              | (t2, None) \<Rightarrow>
                  (case Update entry1 of
                     Some err \<Rightarrow>
                       \<lparr>trace = t1 @ t2 @ [Call_Update] @ internal_error,
                        outcome = Panicked (PanicError EOF)\<rparr>
                   | None \<Rightarrow>
                       (case slice_from (GetFilename entry1)
                               (LastIndex (GetFilename entry1) ''.'') of
                          Inl pn \<Rightarrow>
                            \<lparr>trace = t1 @ t2 @ [Call_Update, W (WriteHeader 200)],
                             outcome = Panicked pn\<rparr>
                        | Inr ext \<Rightarrow>
                            \<lparr>trace = t1 @ t2 @ [Call_Update, W (WriteHeader 200),
                                       W (Write (ProtocolHost h @ ident @ ext))],
                             outcome = Returned\<rparr>))))"

definition handleUploadRequest :: "ShareXHandler \<Rightarrow> http_request \<Rightarrow> result" where
  "handleUploadRequest h req =
     (let t0 = outgoing h req in
      case ParseMediaType h (Header_Get (Header req) ''Content-Type'') of
        Inl err \<Rightarrow> \<lparr>trace = t0 @ http_Error ''400 bad request'' 400, outcome = Returned\<rparr>
      | Inr (mediatype, params) \<Rightarrow>
          (let multipartReader = multipart req (Header_Get params ''boundary'');
               entry = NewStorageEntry (Storage h);
               t1 = t0 @ [Call_NewStorageEntry, Call_Save]
           in case Save entry of
                Some err \<Rightarrow>
                  \<lparr>trace = t1 @ internal_error, outcome = Panicked (PanicError err)\<rparr>
              | None \<Rightarrow>
                  (let ident = GetId entry in
                   case GetWriter entry of
                     Inl err \<Rightarrow>
                       \<lparr>trace = t1 @ [Call_GetWriter] @ internal_error,
                        outcome = Panicked (PanicError err)\<rparr>
                   | Inr wr \<Rightarrow>
                       (let r = upload_parts h entry ident wr multipartReader
                        in \<lparr>trace = t1 @ [Call_GetWriter] @ trace r @ [Writer_Close],
                            outcome = outcome r\<rparr>))))"

subsection \<open>handleGetRequest\<close>

text \<open>The loop of lines 133 to 139 with its \<^verbatim>\<open>goto\<close>: the kind of disposition, with the
  comparison \<^verbatim>\<open>strings.EqualFold\<close> of line 134 as first argument.\<close>

fun disposition_kind :: "(string \<Rightarrow> string \<Rightarrow> bool) \<Rightarrow> string list \<Rightarrow> string \<Rightarrow> string" where
  "disposition_kind eq [] ct = ''attachment''"
| "disposition_kind eq (v # vs) ct =
     (if eq v ct then ''inline'' else disposition_kind eq vs ct)"

text \<open>The loop of lines 145 to 157, with the buffer size, the result of each write on the
  response (by iteration number) and the reads the reader still has to give.\<close>

fun send_file ::
  "int \<Rightarrow> (nat \<Rightarrow> go_error option) \<Rightarrow> nat \<Rightarrow> reader \<Rightarrow> event list \<times> outcome" where
  "send_file bufsize werr k [] = ([Reader_Read [] (Some EOF)], Returned)"
| "send_file bufsize werr k ((d, err) # rs) =
     (case err of
        Some (Err msg) \<Rightarrow>
          (Reader_Read d err # internal_error, Panicked (PanicError (Err msg)))
      | _ \<Rightarrow>
          if length d = 0 then ([Reader_Read d err], Returned)
          else if bufsize < int (length d) then
            ([Reader_Read d err], Panicked (RuntimeError ''slice bounds out of range''))
          else
            (case werr k of
               Some e \<Rightarrow> ([Reader_Read d err, W (Write d)], Panicked (PanicError e))
             | None \<Rightarrow>
                 (case send_file bufsize werr (Suc k) rs of
                    (t, out) \<Rightarrow> (Reader_Read d err # W (Write d) # t, out))))"

text \<open>The handler; \<open>werr\<close> is the result of each write of a chunk to the client.\<close>

definition handleGetRequest ::
  "ShareXHandler \<Rightarrow> (nat \<Rightarrow> go_error option) \<Rightarrow> http_request \<Rightarrow> result" where
  "handleGetRequest h werr req =
     (let t0 = outgoing h req;
          ident = Header_Get (Vars req) ''id''
      in case slice_to ident (LastIndex ident ''.'') of
           Inl pn \<Rightarrow> \<lparr>trace = t0, outcome = Panicked pn\<rparr>
         | Inr ident' \<Rightarrow>
             (case LoadStorageEntry (Storage h) ident' of
                (success, err, entry) \<Rightarrow>
                  (let t1 = t0 @ [Call_LoadStorageEntry ident'] in
                   case err of
                     Some e \<Rightarrow>
                       \<lparr>trace = t1 @ internal_error, outcome = Panicked (PanicError e)\<rparr>
                   | None \<Rightarrow>
                       if \<not> success then \<lparr>trace = t1 @ http_NotFound, outcome = Returned\<rparr>
                       else if Header_Get (Header req) ''If-None-Match'' = GetETagValue entry
                       then \<lparr>trace = t1 @ [W (WriteHeader 304)], outcome = Returned\<rparr>
                       else
                         (case GetReader entry of
                            Inl e \<Rightarrow>
                              \<lparr>trace = t1 @ [Call_GetReader] @ internal_error,
                               outcome = Panicked (PanicError e)\<rparr>
                          | Inr rd \<Rightarrow>
                              (let t2 = t1 @
                                     [Call_GetReader,
                                      W (Header_Set ''Content-Disposition''
                                           (dispositionValue
                                              (disposition_kind (EqualFold h)
                                                 (WhitelistedContentTypes h)
                                                 (GetContentType entry))
                                              (GetFilename entry))),
                                      W (Header_Set ''Content-Type'' (GetContentType entry)),
                                      W (Header_Set ''ETag'' (GetETagValue entry)),
                                      W (WriteHeader 200)]
                               in if BufferSize h < 0 then
                                    \<lparr>trace = t2,
                                     outcome = Panicked (RuntimeError ''makeslice: len out of range'')\<rparr>
                                  else
                                    (case send_file (BufferSize h) werr 0 rd of
                                       (t3, out) \<Rightarrow> \<lparr>trace = t2 @ t3, outcome = out\<rparr>))))))"

subsection \<open>Concrete handlers and requests\<close>

text \<open>A stand-in for \<^verbatim>\<open>mime.ParseMediaType\<close> at the header values used below: a multipart
  type with the boundary \<^verbatim>\<open>XYZ\<close>, the same type without a boundary, and anything else,
  which is refused.\<close>

definition example_ParseMediaType :: "string \<Rightarrow> go_error + string \<times> header" where
  "example_ParseMediaType v =
     (if v = ''multipart/form-data; boundary=XYZ''
      then Inr (''multipart/form-data'', [(''boundary'', ''XYZ'')])
      else if v = ''multipart/form-data'' then Inr (''multipart/form-data'', [])
      else Inl (Err ''mime: no media type''))"

text \<open>A stand-in for \<^verbatim>\<open>strings.EqualFold\<close> at the ASCII strings used below, where folding
  the letters \<^verbatim>\<open>A\<close> to \<^verbatim>\<open>Z\<close> to lower case is all the library does.\<close>

definition fold_char :: "char \<Rightarrow> char" where
  "fold_char c =
     (case map_of (zip ''ABCDEFGHIJKLMNOPQRSTUVWXYZ'' ''abcdefghijklmnopqrstuvwxyz'') c of
        None \<Rightarrow> c
      | Some l \<Rightarrow> l)"

definition example_EqualFold :: "string \<Rightarrow> string \<Rightarrow> bool" where
  "example_EqualFold s t = (map fold_char s = map fold_char t)"

text \<open>The entry a storage allocates, with the given writer, and a finalized entry with
  the given ETag and reader.\<close>

definition new_entry :: "go_error + writer \<Rightarrow> storage_entry" where
  "new_entry gw =
     \<lparr>GetId = ''abc123'', GetFilename = [], GetContentType = [], GetETagValue = [],
      Save = None, Update = None, GetWriter = gw, GetReader = Inl (Err ''not finalized'')\<rparr>"

definition stored_entry :: "string \<Rightarrow> go_error + reader \<Rightarrow> storage_entry" where
  "stored_entry etag gr =
     \<lparr>GetId = ''abc123'', GetFilename = ''photo.png'', GetContentType = ''Image/PNG'',
      GetETagValue = etag, Save = None, Update = None,
      GetWriter = Inl (Err ''finalized''), GetReader = gr\<rparr>"

definition example_handler :: "storage_entry \<Rightarrow> storage_entry \<Rightarrow> ShareXHandler" where
  "example_handler fresh stored =
     \<lparr>PathConfiguration = \<lparr>UploadPath = ''/upload'', GetPath = ''/get/{id}''\<rparr>,
      Storage =
        \<lparr>NewStorageEntry = fresh,
         LoadStorageEntry =
           (\<lambda>i. if i = ''abc123'' then (True, None, stored) else (False, None, fresh))\<rparr>,
      OutgoingFunction = Some (\<lambda>r. [(''Access-Control-Allow-Origin'', ''*'')]),
      BufferSize = 4,
      Path = ''/'',
      ProtocolHost = ''http://localhost:8080/'',
      WhitelistedContentTypes = [''image/png''],
      ParseMediaType = example_ParseMediaType,
      EqualFold = example_EqualFold\<rparr>"

definition sound_writer :: writer where
  "sound_writer k = None"

definition failing_writer :: writer where
  "failing_writer k = Some (Err ''no space left on device'')"

definition six_bytes :: reader where
  "six_bytes = [(''0123'', None), (''45'', Some EOF)]"

text \<open>An upload of one part of ten bytes under the given \<^verbatim>\<open>Content-Type\<close> header and file
  name, and a download of the given path variable \<^verbatim>\<open>id\<close> with the given headers.\<close>

definition upload_request :: "string \<Rightarrow> string \<Rightarrow> http_request" where
  "upload_request content_type filename =
     \<lparr>Header = [(''Content-Type'', content_type)],
      Vars = [],
      multipart =
        (\<lambda>b. if b = ''XYZ''
             then ([\<lparr>part_Header = [(''Content-Type'', ''image/png'')],
                     FileName = filename,
                     part_content = Inr ''0123456789''\<rparr>], EOF)
             else ([], Err ''multipart: boundary is empty''))\<rparr>"

definition get_request :: "header \<Rightarrow> string \<Rightarrow> http_request" where
  "get_request hdr ident =
     \<lparr>Header = hdr, Vars = [(''id'', ident)], multipart = (\<lambda>b. ([], EOF))\<rparr>"

lemmas example_defs =
  example_ParseMediaType_def example_EqualFold_def fold_char_def new_entry_def stored_entry_def example_handler_def
  sound_writer_def failing_writer_def six_bytes_def upload_request_def get_request_def

lemmas handler_defs =
  handleUploadRequest_def upload_parts_def handleGetRequest_def outgoing_def Header_Get_def
  io_Copy_def SetFilename_def SetContentType_def LastIndex_def slice_from_def slice_to_def
  internal_error_def http_NotFound_def http_Error_def

section \<open>Properties\<close>

subsection \<open>The last dot of a string\<close>

lemma take1_drop: "(take (Suc 0) (drop i s) = [c]) = (i < length s \<and> s ! i = c)"
proof (cases "i < length s")
  case True
  then have "drop i s = s ! i # drop (Suc i) s" by (simp add: Cons_nth_drop_Suc)
  then show ?thesis using True by simp
next
  case False
  then show ?thesis by simp
qed

lemma upt_split3: "a \<le> b \<Longrightarrow> [0..<Suc b] = [0..<a] @ a # [Suc a..<Suc b]"
proof -
  assume ab: "a \<le> b"
  then have "[0..<Suc b] = [0..<a] @ [a..<Suc b]"
    using upt_add_eq_append[of 0 a "Suc b - a"] by simp
  moreover have "[a..<Suc b] = a # [Suc a..<Suc b]"
    using ab by (simp add: upt_conv_Cons del: upt_Suc)
  ultimately show ?thesis by simp
qed

lemma LastIndex_absent: "c \<notin> set s \<Longrightarrow> LastIndex s [c] = - 1"
proof -
  assume a: "c \<notin> set s"
  have "filter (\<lambda>i. take (length [c]) (drop i s) = [c]) (rev [0..<Suc (length s)]) = []"
    using a by (auto simp: filter_empty_conv take1_drop)
  then show ?thesis unfolding LastIndex_def by simp
qed

lemma LastIndex_last:
  assumes "c \<notin> set sfx"
  shows "LastIndex (base @ c # sfx) [c] = int (length base)"
proof -
  let ?s = "base @ c # sfx"
  let ?P = "\<lambda>i. take (length [c]) (drop i ?s) = [c]"
  have split:
    "[0..<Suc (length ?s)] = [0..<length base] @ length base # [Suc (length base)..<Suc (length ?s)]"
    by (rule upt_split3) simp
  have later: "\<not> ?P i" if lt: "length base < i" for i
  proof
    assume "?P i"
    then have p: "i < length ?s \<and> ?s ! i = c"
      using take1_drop[of i ?s c] by simp
    obtain j where j: "i = length base + Suc j"
      using lt less_imp_Suc_add[of "length base" i] by auto
    have "?s ! i = sfx ! j"
      unfolding j by (simp only: nth_append_length_plus nth_Cons_Suc)
    then have "j < length sfx \<and> sfx ! j = c"
      using p j by simp
    then show False using assms nth_mem by blast
  qed
  have tail: "filter ?P [Suc (length base)..<Suc (length ?s)] = []"
  proof -
    have "\<forall>i \<in> set [Suc (length base)..<Suc (length ?s)]. \<not> ?P i"
    proof
      fix i
      assume "i \<in> set [Suc (length base)..<Suc (length ?s)]"
      then have "length base < i" by (simp only: set_upt atLeastLessThan_iff Suc_le_eq)
      then show "\<not> ?P i" by (rule later)
    qed
    then show ?thesis by (simp only: filter_empty_conv)
  qed
  have here: "?P (length base)" by simp
  have "filter ?P (rev [0..<Suc (length ?s)]) = length base # rev (filter ?P [0..<length base])"
    unfolding split using tail here by (simp del: upt_Suc add: rev_filter[symmetric])
  then show ?thesis unfolding LastIndex_def by simp
qed

subsection \<open>Reading a trace\<close>

lemma status_of_append:
  "status_of (xs @ ys) = (case status_of xs of None \<Rightarrow> status_of ys | Some c \<Rightarrow> Some c)"
  by (induction xs rule: status_of.induct) simp_all

lemma body_of_append: "body_of (xs @ ys) = body_of xs @ body_of ys"
  by (induction xs rule: body_of.induct) simp_all

lemma writer_writes_append: "writer_writes (xs @ ys) = writer_writes xs @ writer_writes ys"
  by (induction xs rule: writer_writes.induct) simp_all

lemma headers_from_append:
  "status_of xs = None \<Longrightarrow> headers_from h (xs @ ys) = headers_from (headers_from h xs) ys"
  by (induction h xs rule: headers_from.induct) simp_all

lemma outgoing_quiet:
  "status_of (outgoing h req) = None"
  "body_of (outgoing h req) = []"
  "writer_writes (outgoing h req) = []"
proof -
  have a: "status_of (map (\<lambda>(k, v). W (Header_Set k v)) kvs) = None" for kvs
    by (induction kvs) auto
  have b: "body_of (map (\<lambda>(k, v). W (Header_Set k v)) kvs) = []" for kvs
    by (induction kvs) auto
  have c: "writer_writes (map (\<lambda>(k, v). W (Header_Set k v)) kvs) = []" for kvs
    by (induction kvs) auto
  show "status_of (outgoing h req) = None" "body_of (outgoing h req) = []"
    "writer_writes (outgoing h req) = []"
    using a b c by (simp_all add: outgoing_def split: option.splits)
qed

lemma outgoing_no_storage: "e \<in> set (outgoing h req) \<Longrightarrow> \<not> is_storage_call e"
  by (auto simp: outgoing_def split: option.splits)

lemma outgoing_calls:
  "Call_NewStorageEntry \<notin> set (outgoing h req)" "Call_Save \<notin> set (outgoing h req)"
  "Call_GetReader \<notin> set (outgoing h req)" "Reader_Close \<notin> set (outgoing h req)"
  "filter is_storage_call (outgoing h req) = []"
  by (auto simp: outgoing_def filter_empty_conv split: option.splits)

subsection \<open>Uploads\<close>

text \<open>When every part can be read to its end and the stream ends cleanly, the copy loop
  ends normally, touches the response in no way, and hands each part's bytes to the writer
  whole, in one write.\<close>

lemma copy_parts_all_copied:
  "\<forall>q \<in> set ps. \<not> isl (part_content q) \<Longrightarrow>
   snd (copy_parts wr k ps EOF) = None \<and>
   status_of (fst (copy_parts wr k ps EOF)) = None \<and>
   body_of (fst (copy_parts wr k ps EOF)) = [] \<and>
   writer_writes (fst (copy_parts wr k ps EOF)) = map (\<lambda>q. projr (part_content q)) ps"
proof (induction ps arbitrary: k)
  case Nil
  then show ?case by simp
next
  case (Cons p ps)
  then obtain d where d: "part_content p = Inr d"
    by (cases "part_content p") auto
  from Cons have ih:
    "snd (copy_parts wr (Suc k) ps EOF) = None \<and>
     status_of (fst (copy_parts wr (Suc k) ps EOF)) = None \<and>
     body_of (fst (copy_parts wr (Suc k) ps EOF)) = [] \<and>
     writer_writes (fst (copy_parts wr (Suc k) ps EOF)) = map (\<lambda>q. projr (part_content q)) ps"
    by simp
  then show ?case using d
    by (cases "copy_parts wr (Suc k) ps EOF") (simp add: io_Copy_def)
qed

text \<open>
  Claim C1, as amended. An upload whose media type parses, whose entry is allocated and
  saved, whose writer is acquired, whose parts are all copied up to a clean end of the
  stream and whose entry is finalized, and whose recorded file name (that of the first
  part) contains a dot, is answered with status 200 and a body that is exactly
  \<^verbatim>\<open>ProtocolHost\<close>, followed by the entry's id, followed by the file name's suffix from its
  last dot on, the dot included; the handler returns normally.
\<close>

theorem upload_success_url:
  assumes parse:
      "ParseMediaType h (Header_Get (Header req) ''Content-Type'') = Inr (mediatype, params)"
    and save: "Save (NewStorageEntry (Storage h)) = None"
    and writer: "GetWriter (NewStorageEntry (Storage h)) = Inr wr"
    and parts: "multipart req (Header_Get params ''boundary'') = (p # ps, EOF)"
    and copied: "\<forall>q \<in> set (p # ps). \<not> isl (part_content q)"
    and update: "Update (NewStorageEntry (Storage h)) = None"
    and name: "FileName p = base @ ''.'' @ sfx" "CHR ''.'' \<notin> set sfx"
  shows "status_of (trace (handleUploadRequest h req)) = Some 200 \<and>
         body_of (trace (handleUploadRequest h req)) =
           ProtocolHost h @ GetId (NewStorageEntry (Storage h)) @ ''.'' @ sfx \<and>
         outcome (handleUploadRequest h req) = Returned"
proof -
  let ?e = "NewStorageEntry (Storage h)"
  obtain t where t: "copy_parts wr 0 (p # ps) EOF = (t, None)"
    and ts: "status_of t = None" and tb: "body_of t = []"
    using copy_parts_all_copied[OF copied, of wr 0]
    by (cases "copy_parts wr 0 (p # ps) EOF") auto
  have ext: "slice_from (FileName p) (LastIndex (FileName p) ''.'') = Inr (''.'' @ sfx)"
    using LastIndex_last[OF name(2), of base] name(1) by (simp add: slice_from_def)
  have up: "upload_parts h ?e (GetId ?e) wr (p # ps, EOF) =
      \<lparr>trace = [Call_SetContentType (Header_Get (part_Header p) ''Content-Type''),
                Call_SetFilename (FileName p)] @ t @
               [Call_Update, W (WriteHeader 200),
                W (Write (ProtocolHost h @ GetId ?e @ ''.'' @ sfx))],
       outcome = Returned\<rparr>"
    unfolding upload_parts_def using t update ext
    by (simp add: SetFilename_def SetContentType_def del: copy_parts.simps)
  show ?thesis
    unfolding handleUploadRequest_def
    using parse save writer parts up ts tb
    by (simp add: status_of_append body_of_append outgoing_quiet)
qed

theorem upload_success_url_witness:
  "ParseMediaType (example_handler (new_entry (Inr sound_writer)) (stored_entry ''tag1'' (Inr six_bytes)))
     (Header_Get (Header (upload_request ''multipart/form-data; boundary=XYZ'' ''my.photo.png''))
        ''Content-Type'') = Inr (''multipart/form-data'', [(''boundary'', ''XYZ'')]) \<and>
   body_of (trace (handleUploadRequest
       (example_handler (new_entry (Inr sound_writer)) (stored_entry ''tag1'' (Inr six_bytes)))
       (upload_request ''multipart/form-data; boundary=XYZ'' ''my.photo.png''))) =
     ''http://localhost:8080/abc123.png'' \<and>
   status_of (trace (handleUploadRequest
       (example_handler (new_entry (Inr sound_writer)) (stored_entry ''tag1'' (Inr six_bytes)))
       (upload_request ''multipart/form-data; boundary=XYZ'' ''my.photo.png''))) = Some 200"
proof -
  let ?h = "example_handler (new_entry (Inr sound_writer)) (stored_entry ''tag1'' (Inr six_bytes))"
  let ?req = "upload_request ''multipart/form-data; boundary=XYZ'' ''my.photo.png''"
  let ?p = "\<lparr>part_Header = [(''Content-Type'', ''image/png'')], FileName = ''my.photo.png'',
             part_content = Inr ''0123456789''\<rparr>"
  have parse: "ParseMediaType ?h (Header_Get (Header ?req) ''Content-Type'') =
      Inr (''multipart/form-data'', [(''boundary'', ''XYZ'')])"
    by (simp add: example_defs Header_Get_def)
  have save: "Save (NewStorageEntry (Storage ?h)) = None"
    by (simp add: example_defs)
  have writer: "GetWriter (NewStorageEntry (Storage ?h)) = Inr sound_writer"
    by (simp add: example_defs)
  have parts: "multipart ?req (Header_Get [(''boundary'', ''XYZ'')] ''boundary'') = (?p # [], EOF)"
    by (simp add: example_defs Header_Get_def)
  have copied: "\<forall>q \<in> set (?p # []). \<not> isl (part_content q)"
    by simp
  have update: "Update (NewStorageEntry (Storage ?h)) = None"
    by (simp add: example_defs)
  have name: "FileName ?p = ''my.photo'' @ ''.'' @ ''png''" "CHR ''.'' \<notin> set ''png''"
    by simp_all
  from upload_success_url[OF parse save writer parts copied update name] parse
  show ?thesis by (simp add: example_defs)
qed

text \<open>
  Claim C1, as stated, fails where the recorded file name has no dot: the upload of a part
  named \<^verbatim>\<open>README\<close> passes every step up to and including the finalization, the status
  200 is written, and the derivation of the extension panics; nothing is written to the
  body, which therefore does not even begin with \<^verbatim>\<open>ProtocolHost\<close>.
\<close>

theorem upload_success_url_counterexample:
  "trace (handleUploadRequest
       (example_handler (new_entry (Inr sound_writer)) (stored_entry ''tag1'' (Inr six_bytes)))
       (upload_request ''multipart/form-data; boundary=XYZ'' ''README'')) =
     [W (Header_Set ''Access-Control-Allow-Origin'' ''*''),
      Call_NewStorageEntry, Call_Save, Call_GetWriter,
      Call_SetContentType ''image/png'', Call_SetFilename ''README'',
      Writer_Write ''0123456789'' None, Call_Update, W (WriteHeader 200), Writer_Close] \<and>
   body_of (trace (handleUploadRequest
       (example_handler (new_entry (Inr sound_writer)) (stored_entry ''tag1'' (Inr six_bytes)))
       (upload_request ''multipart/form-data; boundary=XYZ'' ''README''))) = [] \<and>
   \<not> prefix
       (ProtocolHost (example_handler (new_entry (Inr sound_writer)) (stored_entry ''tag1'' (Inr six_bytes))))
       (body_of (trace (handleUploadRequest
          (example_handler (new_entry (Inr sound_writer)) (stored_entry ''tag1'' (Inr six_bytes)))
          (upload_request ''multipart/form-data; boundary=XYZ'' ''README''))))"
  by (simp add: example_defs handler_defs)

text \<open>
  Claim C8. An upload whose \<^verbatim>\<open>Content-Type\<close> header fails media-type parsing is answered
  with status 400 and the handler returns; neither \<^verbatim>\<open>NewStorageEntry\<close> nor \<^verbatim>\<open>Save\<close> is
  called, nor any other method of the storage or of an entry, so the request brings no
  entry into existence.
\<close>

theorem upload_bad_media_type:
  assumes "ParseMediaType h (Header_Get (Header req) ''Content-Type'') = Inl err"
  shows "status_of (trace (handleUploadRequest h req)) = Some 400 \<and>
         outcome (handleUploadRequest h req) = Returned \<and>
         Call_NewStorageEntry \<notin> set (trace (handleUploadRequest h req)) \<and>
         Call_Save \<notin> set (trace (handleUploadRequest h req)) \<and>
         filter is_storage_call (trace (handleUploadRequest h req)) = []"
  using assms
  by (simp add: handleUploadRequest_def status_of_append outgoing_quiet outgoing_calls http_Error_def)

theorem upload_bad_media_type_witness:
  "ParseMediaType (example_handler (new_entry (Inr sound_writer)) (stored_entry ''tag1'' (Inr six_bytes)))
     (Header_Get (Header (upload_request '''' ''my.photo.png'')) ''Content-Type'') =
     Inl (Err ''mime: no media type'') \<and>
   status_of (trace (handleUploadRequest
     (example_handler (new_entry (Inr sound_writer)) (stored_entry ''tag1'' (Inr six_bytes)))
     (upload_request '''' ''my.photo.png''))) = Some 400 \<and>
   filter is_storage_call (trace (handleUploadRequest
     (example_handler (new_entry (Inr sound_writer)) (stored_entry ''tag1'' (Inr six_bytes)))
     (upload_request '''' ''my.photo.png''))) = []"
proof -
  have parse: "ParseMediaType (example_handler (new_entry (Inr sound_writer)) (stored_entry ''tag1'' (Inr six_bytes)))
     (Header_Get (Header (upload_request '''' ''my.photo.png'')) ''Content-Type'') =
     Inl (Err ''mime: no media type'')"
    by (simp add: example_defs Header_Get_def)
  from upload_bad_media_type[OF parse] parse show ?thesis by simp
qed

text \<open>
  Claim C9, as amended. \<^verbatim>\<open>WriteHeader(200)\<close> is called before the retrieval URL is derived:
  an upload that passes every step up to and including the finalization of the entry, and
  whose recorded file name has no dot, ends with the status 200 committed on the response
  writer, with no byte of body and no error status written, and with the run-time panic of
  the slice expression. The response is never completed: the server sends no status line,
  neither 200 nor an error status.
\<close>

theorem upload_status_before_url:
  assumes parse:
      "ParseMediaType h (Header_Get (Header req) ''Content-Type'') = Inr (mediatype, params)"
    and save: "Save (NewStorageEntry (Storage h)) = None"
    and writer: "GetWriter (NewStorageEntry (Storage h)) = Inr wr"
    and parts: "multipart req (Header_Get params ''boundary'') = (p # ps, EOF)"
    and copied: "\<forall>q \<in> set (p # ps). \<not> isl (part_content q)"
    and update: "Update (NewStorageEntry (Storage h)) = None"
    and name: "CHR ''.'' \<notin> set (FileName p)"
  shows "status_of (trace (handleUploadRequest h req)) = Some 200 \<and>
         body_of (trace (handleUploadRequest h req)) = [] \<and>
         outcome (handleUploadRequest h req) = Panicked (RuntimeError ''slice bounds out of range'') \<and>
         sent_status (handleUploadRequest h req) = None"
proof -
  let ?e = "NewStorageEntry (Storage h)"
  obtain t where t: "copy_parts wr 0 (p # ps) EOF = (t, None)"
    and ts: "status_of t = None" and tb: "body_of t = []"
    using copy_parts_all_copied[OF copied, of wr 0]
    by (cases "copy_parts wr 0 (p # ps) EOF") auto
  have ext: "slice_from (FileName p) (LastIndex (FileName p) ''.'') =
      Inl (RuntimeError ''slice bounds out of range'')"
    using LastIndex_absent[OF name] by (simp add: slice_from_def)
  have up: "upload_parts h ?e (GetId ?e) wr (p # ps, EOF) =
      \<lparr>trace = [Call_SetContentType (Header_Get (part_Header p) ''Content-Type''),
                Call_SetFilename (FileName p)] @ t @ [Call_Update, W (WriteHeader 200)],
       outcome = Panicked (RuntimeError ''slice bounds out of range'')\<rparr>"
    unfolding upload_parts_def using t update ext
    by (simp add: SetFilename_def SetContentType_def del: copy_parts.simps)
  have calls: "status_of (trace (handleUploadRequest h req)) = Some 200 \<and>
      body_of (trace (handleUploadRequest h req)) = [] \<and>
      outcome (handleUploadRequest h req) = Panicked (RuntimeError ''slice bounds out of range'')"
    unfolding handleUploadRequest_def
    using parse save writer parts up ts tb
    by (simp add: status_of_append body_of_append outgoing_quiet)
  then have "sent_status (handleUploadRequest h req) = None"
    by (simp add: sent_status_def)
  with calls show ?thesis by simp
qed

theorem upload_status_before_url_witness:
  "Update (NewStorageEntry (Storage
      (example_handler (new_entry (Inr sound_writer)) (stored_entry ''tag1'' (Inr six_bytes))))) = None \<and>
   CHR ''.'' \<notin> set ''README'' \<and>
   status_of (trace (handleUploadRequest
       (example_handler (new_entry (Inr sound_writer)) (stored_entry ''tag1'' (Inr six_bytes)))
       (upload_request ''multipart/form-data; boundary=XYZ'' ''README''))) = Some 200 \<and>
   body_of (trace (handleUploadRequest
       (example_handler (new_entry (Inr sound_writer)) (stored_entry ''tag1'' (Inr six_bytes)))
       (upload_request ''multipart/form-data; boundary=XYZ'' ''README''))) = [] \<and>
   outcome (handleUploadRequest
       (example_handler (new_entry (Inr sound_writer)) (stored_entry ''tag1'' (Inr six_bytes)))
       (upload_request ''multipart/form-data; boundary=XYZ'' ''README'')) =
     Panicked (RuntimeError ''slice bounds out of range'') \<and>
   sent_status (handleUploadRequest
       (example_handler (new_entry (Inr sound_writer)) (stored_entry ''tag1'' (Inr six_bytes)))
       (upload_request ''multipart/form-data; boundary=XYZ'' ''README'')) = None"
proof -
  let ?h = "example_handler (new_entry (Inr sound_writer)) (stored_entry ''tag1'' (Inr six_bytes))"
  let ?req = "upload_request ''multipart/form-data; boundary=XYZ'' ''README''"
  let ?p = "\<lparr>part_Header = [(''Content-Type'', ''image/png'')], FileName = ''README'',
             part_content = Inr ''0123456789''\<rparr>"
  have parse: "ParseMediaType ?h (Header_Get (Header ?req) ''Content-Type'') =
      Inr (''multipart/form-data'', [(''boundary'', ''XYZ'')])"
    by (simp add: example_defs Header_Get_def)
  have save: "Save (NewStorageEntry (Storage ?h)) = None"
    by (simp add: example_defs)
  have writer: "GetWriter (NewStorageEntry (Storage ?h)) = Inr sound_writer"
    by (simp add: example_defs)
  have parts: "multipart ?req (Header_Get [(''boundary'', ''XYZ'')] ''boundary'') = (?p # [], EOF)"
    by (simp add: example_defs Header_Get_def)
  have copied: "\<forall>q \<in> set (?p # []). \<not> isl (part_content q)"
    by simp
  have update: "Update (NewStorageEntry (Storage ?h)) = None"
    by (simp add: example_defs)
  have name: "CHR ''.'' \<notin> set (FileName ?p)"
    by simp
  from upload_status_before_url[OF parse save writer parts copied update name] update
  show ?thesis by simp
qed

text \<open>
  Claim C9, as stated, fails in its consequence: in the upload of a part named
  \<^verbatim>\<open>README\<close> the entry is finalized and the derivation of the extension panics, and the
  client is not sent the status 200. The handler panics with an empty response buffer, so
  the server closes the connection with nothing sent.
\<close>

theorem upload_status_before_url_counterexample:
  "Call_Update \<in> set (trace (handleUploadRequest
       (example_handler (new_entry (Inr sound_writer)) (stored_entry ''tag1'' (Inr six_bytes)))
       (upload_request ''multipart/form-data; boundary=XYZ'' ''README''))) \<and>
   outcome (handleUploadRequest
       (example_handler (new_entry (Inr sound_writer)) (stored_entry ''tag1'' (Inr six_bytes)))
       (upload_request ''multipart/form-data; boundary=XYZ'' ''README'')) =
     Panicked (RuntimeError ''slice bounds out of range'') \<and>
   sent_status (handleUploadRequest
       (example_handler (new_entry (Inr sound_writer)) (stored_entry ''tag1'' (Inr six_bytes)))
       (upload_request ''multipart/form-data; boundary=XYZ'' ''README'')) \<noteq> Some 200"
  by (simp add: example_defs handler_defs sent_status_def)

text \<open>After a copy loop that ended normally, the writes on the writer are those of the loop,
  whatever the finalization and the derivation of the URL do.\<close>

lemma upload_parts_writes:
  assumes "copy_parts wr 0 (p # ps) fin = (t, None)"
  shows "writer_writes (trace (upload_parts h e i wr (p # ps, fin))) = writer_writes t"
  unfolding upload_parts_def using assms
  by (simp add: Let_def writer_writes_append internal_error_def http_Error_def
      del: copy_parts.simps split: option.splits sum.splits)

text \<open>The upload path does not read the configured buffer size: whatever value
  \<^verbatim>\<open>BufferSize\<close> has, each part that is copied reaches the write sink whole, in one
  write.\<close>

lemma upload_writes_whole_parts:
  assumes parse:
      "ParseMediaType h (Header_Get (Header req) ''Content-Type'') = Inr (mediatype, params)"
    and save: "Save (NewStorageEntry (Storage h)) = None"
    and writer: "GetWriter (NewStorageEntry (Storage h)) = Inr wr"
    and parts: "multipart req (Header_Get params ''boundary'') = (p # ps, EOF)"
    and copied: "\<forall>q \<in> set (p # ps). \<not> isl (part_content q)"
  shows "writer_writes (trace (handleUploadRequest (h\<lparr>BufferSize := b\<rparr>) req)) =
           map (\<lambda>q. projr (part_content q)) (p # ps)"
proof -
  let ?e = "NewStorageEntry (Storage h)"
  obtain t where t: "copy_parts wr 0 (p # ps) EOF = (t, None)"
    and tw: "writer_writes t = map (\<lambda>q. projr (part_content q)) (p # ps)"
    using copy_parts_all_copied[OF copied, of wr 0]
    by (cases "copy_parts wr 0 (p # ps) EOF") auto
  have "writer_writes (trace (upload_parts (h\<lparr>BufferSize := b\<rparr>) ?e (GetId ?e) wr (p # ps, EOF))) =
      map (\<lambda>q. projr (part_content q)) (p # ps)"
    using upload_parts_writes[OF t] tw by simp
  then show ?thesis
    unfolding handleUploadRequest_def
    using parse save writer parts
    by (simp add: Let_def writer_writes_append outgoing_quiet)
qed

text \<open>
  Claim C5 does not hold of the code: the upload copies each part whole into an unbounded
  buffer (lines 75 to 85) where the download loop reads through a buffer of the configured
  size (lines 144 to 157). With a buffer size of 4 bytes configured, the ten bytes of the
  only part of this upload, which are the whole uploaded file, reach the write sink in a
  single write, out of a buffer that held all of them.
\<close>

theorem upload_part_buffered_whole:
  "writer_writes (trace (handleUploadRequest
       (example_handler (new_entry (Inr sound_writer)) (stored_entry ''tag1'' (Inr six_bytes)))
       (upload_request ''multipart/form-data; boundary=XYZ'' ''my.photo.png''))) =
     [''0123456789''] \<and>
   BufferSize (example_handler (new_entry (Inr sound_writer)) (stored_entry ''tag1'' (Inr six_bytes)))
     < int (length ''0123456789'')"
  by (simp add: example_defs handler_defs)

text \<open>
  Claim C6 does not hold of the code: the result of \<^verbatim>\<open>writer.Write\<close> is dropped (line 85).
  In this upload the write of the part to the sink returns an error; the handler goes on,
  finalizes the entry, answers 200 with the retrieval URL and returns normally.
\<close>

theorem upload_write_error_ignored:
  "trace (handleUploadRequest
       (example_handler (new_entry (Inr failing_writer)) (stored_entry ''tag1'' (Inr six_bytes)))
       (upload_request ''multipart/form-data; boundary=XYZ'' ''my.photo.png'')) =
     [W (Header_Set ''Access-Control-Allow-Origin'' ''*''),
      Call_NewStorageEntry, Call_Save, Call_GetWriter,
      Call_SetContentType ''image/png'', Call_SetFilename ''my.photo.png'',
      Writer_Write ''0123456789'' (Some (Err ''no space left on device'')),
      Call_Update, W (WriteHeader 200), W (Write ''http://localhost:8080/abc123.png''),
      Writer_Close] \<and>
   status_of (trace (handleUploadRequest
       (example_handler (new_entry (Inr failing_writer)) (stored_entry ''tag1'' (Inr six_bytes)))
       (upload_request ''multipart/form-data; boundary=XYZ'' ''my.photo.png''))) = Some 200 \<and>
   outcome (handleUploadRequest
       (example_handler (new_entry (Inr failing_writer)) (stored_entry ''tag1'' (Inr six_bytes)))
       (upload_request ''multipart/form-data; boundary=XYZ'' ''my.photo.png'')) = Returned"
  by (simp add: example_defs handler_defs)

text \<open>Once the writer is acquired, the deferred \<^verbatim>\<open>Close\<close> is the last call of the
  invocation, however the invocation ends.\<close>

lemma upload_writer_closed:
  assumes "ParseMediaType h (Header_Get (Header req) ''Content-Type'') = Inr (mediatype, params)"
    and "Save (NewStorageEntry (Storage h)) = None"
    and "GetWriter (NewStorageEntry (Storage h)) = Inr wr"
  shows "\<exists>t. trace (handleUploadRequest h req) = t @ [Writer_Close] \<and> Call_GetWriter \<in> set t"
  unfolding handleUploadRequest_def using assms by (simp add: Let_def)

subsection \<open>File names and ids without a dot\<close>

text \<open>
  Claim C2 does not hold of the code: without a dot \<^verbatim>\<open>strings.LastIndex\<close> gives \<open>-1\<close>,
  which is used as a slice bound. The upload of a part named \<^verbatim>\<open>README\<close> and the download
  of the path id \<^verbatim>\<open>abc123\<close> both end in the run-time panic of an out-of-range slice
  bound; the download has by then made no call but the hook's.
\<close>

theorem no_dot_slice_out_of_range:
  "outcome (handleUploadRequest
       (example_handler (new_entry (Inr sound_writer)) (stored_entry ''tag1'' (Inr six_bytes)))
       (upload_request ''multipart/form-data; boundary=XYZ'' ''README'')) =
     Panicked (RuntimeError ''slice bounds out of range'') \<and>
   LastIndex ''README'' ''.'' = - 1 \<and>
   handleGetRequest
       (example_handler (new_entry (Inr sound_writer)) (stored_entry ''tag1'' (Inr six_bytes)))
       sound_writer (get_request [] ''abc123'') =
     \<lparr>trace = [W (Header_Set ''Access-Control-Allow-Origin'' ''*'')],
      outcome = Panicked (RuntimeError ''slice bounds out of range'')\<rparr> \<and>
   LastIndex ''abc123'' ''.'' = - 1"
  by (simp add: example_defs handler_defs)

subsection \<open>Downloads\<close>

lemma disposition_kind_iff:
  "disposition_kind eq wl ct =
     (if \<exists>v \<in> set wl. eq v ct then ''inline'' else ''attachment'')"
  by (induction wl) auto

lemma strip_extension:
  assumes "CHR ''.'' \<notin> set ext"
  shows "slice_to (ident @ ''.'' @ ext) (LastIndex (ident @ ''.'' @ ext) ''.'') = Inr ident"
  using LastIndex_last[OF assms, of ident] by (simp add: slice_to_def)

text \<open>
  Claim C4. A download of a path id with an extension, whose entry the storage finds and
  whose \<^verbatim>\<open>If-None-Match\<close> header equals the entry's ETag value, is answered with status
  304 and no body; no reader is acquired from the entry, and the handler returns.
\<close>

theorem get_not_modified:
  assumes ident: "Header_Get (Vars req) ''id'' = ident @ ''.'' @ ext" "CHR ''.'' \<notin> set ext"
    and found: "LoadStorageEntry (Storage h) ident = (True, None, entry)"
    and matches: "Header_Get (Header req) ''If-None-Match'' = GetETagValue entry"
  shows "status_of (trace (handleGetRequest h werr req)) = Some 304 \<and>
         body_of (trace (handleGetRequest h werr req)) = [] \<and>
         Call_GetReader \<notin> set (trace (handleGetRequest h werr req)) \<and>
         outcome (handleGetRequest h werr req) = Returned"
  unfolding handleGetRequest_def
  using ident(1) strip_extension[OF ident(2), of ident] found matches
  by (simp add: Let_def status_of_append body_of_append outgoing_quiet outgoing_calls)

theorem get_not_modified_witness:
  "Header_Get (Header (get_request [(''If-None-Match'', ''tag1'')] ''abc123.png'')) ''If-None-Match'' =
     GetETagValue (stored_entry ''tag1'' (Inr six_bytes)) \<and>
   status_of (trace (handleGetRequest
       (example_handler (new_entry (Inr sound_writer)) (stored_entry ''tag1'' (Inr six_bytes)))
       sound_writer (get_request [(''If-None-Match'', ''tag1'')] ''abc123.png''))) = Some 304 \<and>
   body_of (trace (handleGetRequest
       (example_handler (new_entry (Inr sound_writer)) (stored_entry ''tag1'' (Inr six_bytes)))
       sound_writer (get_request [(''If-None-Match'', ''tag1'')] ''abc123.png''))) = [] \<and>
   Call_GetReader \<notin> set (trace (handleGetRequest
       (example_handler (new_entry (Inr sound_writer)) (stored_entry ''tag1'' (Inr six_bytes)))
       sound_writer (get_request [(''If-None-Match'', ''tag1'')] ''abc123.png'')))"
proof -
  let ?h = "example_handler (new_entry (Inr sound_writer)) (stored_entry ''tag1'' (Inr six_bytes))"
  let ?req = "get_request [(''If-None-Match'', ''tag1'')] ''abc123.png''"
  have ident: "Header_Get (Vars ?req) ''id'' = ''abc123'' @ ''.'' @ ''png''"
    "CHR ''.'' \<notin> set ''png''"
    by (simp_all add: example_defs Header_Get_def)
  have found: "LoadStorageEntry (Storage ?h) ''abc123'' =
      (True, None, stored_entry ''tag1'' (Inr six_bytes))"
    by (simp add: example_handler_def)
  have matches: "Header_Get (Header ?req) ''If-None-Match'' =
      GetETagValue (stored_entry ''tag1'' (Inr six_bytes))"
    by (simp add: example_defs Header_Get_def)
  from get_not_modified[OF ident found matches, of sound_writer] matches
  show ?thesis by simp
qed

text \<open>
  Claim C10. An absent \<^verbatim>\<open>If-None-Match\<close> header is read as the empty string and compared
  with the entry's ETag value as it is: a download without that header, of a found entry
  whose ETag value is empty, is answered with status 304 and no body, and no reader is
  acquired, so none of the stored bytes is sent.
\<close>

theorem get_empty_etag_not_modified:
  assumes ident: "Header_Get (Vars req) ''id'' = ident @ ''.'' @ ext" "CHR ''.'' \<notin> set ext"
    and found: "LoadStorageEntry (Storage h) ident = (True, None, entry)"
    and absent: "map_of (Header req) ''If-None-Match'' = None"
    and etag: "GetETagValue entry = []"
  shows "Header_Get (Header req) ''If-None-Match'' = [] \<and>
         status_of (trace (handleGetRequest h werr req)) = Some 304 \<and>
         body_of (trace (handleGetRequest h werr req)) = [] \<and>
         Call_GetReader \<notin> set (trace (handleGetRequest h werr req)) \<and>
         outcome (handleGetRequest h werr req) = Returned"
proof -
  have get: "Header_Get (Header req) ''If-None-Match'' = []"
    using absent by (simp add: Header_Get_def)
  show ?thesis
    unfolding handleGetRequest_def
    using ident(1) strip_extension[OF ident(2), of ident] found get etag
    by (simp add: Let_def status_of_append body_of_append outgoing_quiet outgoing_calls)
qed

theorem get_empty_etag_not_modified_witness:
  "map_of (Header (get_request [] ''abc123.png'')) ''If-None-Match'' = None \<and>
   GetETagValue (stored_entry [] (Inr six_bytes)) = [] \<and>
   status_of (trace (handleGetRequest
       (example_handler (new_entry (Inr sound_writer)) (stored_entry [] (Inr six_bytes)))
       sound_writer (get_request [] ''abc123.png''))) = Some 304 \<and>
   body_of (trace (handleGetRequest
       (example_handler (new_entry (Inr sound_writer)) (stored_entry [] (Inr six_bytes)))
       sound_writer (get_request [] ''abc123.png''))) = []"
proof -
  let ?h = "example_handler (new_entry (Inr sound_writer)) (stored_entry [] (Inr six_bytes))"
  let ?req = "get_request [] ''abc123.png''"
  have ident: "Header_Get (Vars ?req) ''id'' = ''abc123'' @ ''.'' @ ''png''"
    "CHR ''.'' \<notin> set ''png''"
    by (simp_all add: example_defs Header_Get_def)
  have found: "LoadStorageEntry (Storage ?h) ''abc123'' =
      (True, None, stored_entry [] (Inr six_bytes))"
    by (simp add: example_handler_def)
  have absent: "map_of (Header ?req) ''If-None-Match'' = None"
    by (simp add: get_request_def)
  have etag: "GetETagValue (stored_entry [] (Inr six_bytes)) = []"
    by (simp add: stored_entry_def)
  from get_empty_etag_not_modified[OF ident found absent etag, of sound_writer] absent etag
  show ?thesis by simp
qed

text \<open>The calls of a download that acquires its reader, up to the status line.\<close>

lemma get_trace_shape:
  assumes ident: "Header_Get (Vars req) ''id'' = ident @ ''.'' @ ext" "CHR ''.'' \<notin> set ext"
    and found: "LoadStorageEntry (Storage h) ident = (True, None, entry)"
    and differs: "Header_Get (Header req) ''If-None-Match'' \<noteq> GetETagValue entry"
    and reader: "GetReader entry = Inr rd"
  shows "\<exists>post. trace (handleGetRequest h werr req) =
           (outgoing h req @ [Call_LoadStorageEntry ident, Call_GetReader]) @
           W (Header_Set ''Content-Disposition''
                (dispositionValue
                   (disposition_kind (EqualFold h) (WhitelistedContentTypes h)
                      (GetContentType entry))
                   (GetFilename entry))) #
           [W (Header_Set ''Content-Type'' (GetContentType entry)),
            W (Header_Set ''ETag'' (GetETagValue entry)),
            W (WriteHeader 200)] @ post"
  unfolding handleGetRequest_def
  using ident(1) strip_extension[OF ident(2), of ident] found differs reader
  by (cases "send_file (BufferSize h) werr 0 rd") (simp add: Let_def)

text \<open>
  Claim C3, as amended. A download of a found entry whose \<^verbatim>\<open>If-None-Match\<close> header
  differs from the ETag value, and whose reader is acquired without error, sets the
  header \<^verbatim>\<open>Content-Disposition\<close> to \<^verbatim>\<open>inline\<close> with the entry's file name when
  \<^verbatim>\<open>strings.EqualFold\<close> equates some element of the whitelist with the entry's content
  type, and to \<^verbatim>\<open>attachment\<close> with the file name otherwise. The header is set before the
  status is written and before any byte of the body, so it is among the headers committed
  with the status.
\<close>

theorem get_content_disposition:
  assumes ident: "Header_Get (Vars req) ''id'' = ident @ ''.'' @ ext" "CHR ''.'' \<notin> set ext"
    and found: "LoadStorageEntry (Storage h) ident = (True, None, entry)"
    and differs: "Header_Get (Header req) ''If-None-Match'' \<noteq> GetETagValue entry"
    and reader: "GetReader entry = Inr rd"
  shows "headers_of (trace (handleGetRequest h werr req)) ''Content-Disposition'' =
           Some (dispositionValue
                  (if \<exists>v \<in> set (WhitelistedContentTypes h). EqualFold h v (GetContentType entry)
                   then ''inline'' else ''attachment'')
                  (GetFilename entry)) \<and>
         (\<exists>pre post.
            trace (handleGetRequest h werr req) =
              pre @ W (Header_Set ''Content-Disposition''
                        (dispositionValue
                           (if \<exists>v \<in> set (WhitelistedContentTypes h).
                                 EqualFold h v (GetContentType entry)
                            then ''inline'' else ''attachment'')
                           (GetFilename entry))) # post \<and>
            status_of pre = None \<and> body_of pre = [])"
proof -
  let ?v = "dispositionValue
              (if \<exists>v \<in> set (WhitelistedContentTypes h). EqualFold h v (GetContentType entry)
               then ''inline'' else ''attachment'')
              (GetFilename entry)"
  let ?pre = "outgoing h req @ [Call_LoadStorageEntry ident, Call_GetReader]"
  obtain post where shape:
    "trace (handleGetRequest h werr req) =
       ?pre @ W (Header_Set ''Content-Disposition'' ?v) #
       [W (Header_Set ''Content-Type'' (GetContentType entry)),
        W (Header_Set ''ETag'' (GetETagValue entry)),
        W (WriteHeader 200)] @ post"
    using get_trace_shape[OF assms, of werr] unfolding disposition_kind_iff by blast
  have quiet: "status_of ?pre = None" "body_of ?pre = []"
    by (simp_all add: status_of_append body_of_append outgoing_quiet)
  have "headers_of (trace (handleGetRequest h werr req)) ''Content-Disposition'' = Some ?v"
    unfolding shape headers_of_def headers_from_append[OF quiet(1)] by simp
  moreover have "\<exists>pre post. trace (handleGetRequest h werr req) =
       pre @ W (Header_Set ''Content-Disposition'' ?v) # post \<and>
       status_of pre = None \<and> body_of pre = []"
    using shape quiet by blast
  ultimately show ?thesis by simp
qed

theorem get_content_disposition_witness:
  "Header_Get (Header (get_request [] ''abc123.png'')) ''If-None-Match'' \<noteq>
     GetETagValue (stored_entry ''tag1'' (Inr six_bytes)) \<and>
   EqualFold (example_handler (new_entry (Inr sound_writer)) (stored_entry ''tag1'' (Inr six_bytes)))
     ''image/png'' (GetContentType (stored_entry ''tag1'' (Inr six_bytes))) \<and>
   headers_of (trace (handleGetRequest
       (example_handler (new_entry (Inr sound_writer)) (stored_entry ''tag1'' (Inr six_bytes)))
       sound_writer (get_request [] ''abc123.png''))) ''Content-Disposition'' =
     Some (dispositionValue ''inline'' ''photo.png'')"
proof -
  let ?h = "example_handler (new_entry (Inr sound_writer)) (stored_entry ''tag1'' (Inr six_bytes))"
  let ?req = "get_request [] ''abc123.png''"
  let ?e = "stored_entry ''tag1'' (Inr six_bytes)"
  have ident: "Header_Get (Vars ?req) ''id'' = ''abc123'' @ ''.'' @ ''png''"
    "CHR ''.'' \<notin> set ''png''"
    by (simp_all add: example_defs Header_Get_def)
  have found: "LoadStorageEntry (Storage ?h) ''abc123'' = (True, None, ?e)"
    by (simp add: example_handler_def)
  have differs: "Header_Get (Header ?req) ''If-None-Match'' \<noteq> GetETagValue ?e"
    by (simp add: example_defs Header_Get_def)
  have reader: "GetReader ?e = Inr six_bytes"
    by (simp add: stored_entry_def)
  have fold: "EqualFold ?h ''image/png'' (GetContentType ?e)"
    by (simp add: example_defs)
  have wl: "WhitelistedContentTypes ?h = [''image/png'']" "GetFilename ?e = ''photo.png''"
    by (simp_all add: example_handler_def stored_entry_def)
  from get_content_disposition[OF ident found differs reader, of sound_writer] differs fold wl
  show ?thesis by simp
qed

text \<open>
  Claim C3, as stated, fails where the reader cannot be acquired: the entry is found and
  the \<^verbatim>\<open>If-None-Match\<close> header differs from its ETag value, but \<^verbatim>\<open>GetReader\<close> returns an
  error; the handler sets no \<^verbatim>\<open>Content-Disposition\<close> header, neither \<^verbatim>\<open>inline\<close> nor
  \<^verbatim>\<open>attachment\<close>, and panics with that error.
\<close>

theorem get_content_disposition_counterexample:
  "LoadStorageEntry
      (Storage (example_handler (new_entry (Inr sound_writer))
                  (stored_entry ''tag1'' (Inl (Err ''open failed''))))) ''abc123'' =
     (True, None, stored_entry ''tag1'' (Inl (Err ''open failed''))) \<and>
   Header_Get (Header (get_request [] ''abc123.png'')) ''If-None-Match'' \<noteq>
     GetETagValue (stored_entry ''tag1'' (Inl (Err ''open failed''))) \<and>
   trace (handleGetRequest
       (example_handler (new_entry (Inr sound_writer))
          (stored_entry ''tag1'' (Inl (Err ''open failed''))))
       sound_writer (get_request [] ''abc123.png'')) =
     [W (Header_Set ''Access-Control-Allow-Origin'' ''*''),
      Call_LoadStorageEntry ''abc123'', Call_GetReader] @ internal_error \<and>
   headers_of (trace (handleGetRequest
       (example_handler (new_entry (Inr sound_writer))
          (stored_entry ''tag1'' (Inl (Err ''open failed''))))
       sound_writer (get_request [] ''abc123.png''))) ''Content-Disposition'' = None \<and>
   outcome (handleGetRequest
       (example_handler (new_entry (Inr sound_writer))
          (stored_entry ''tag1'' (Inl (Err ''open failed''))))
       sound_writer (get_request [] ''abc123.png'')) = Panicked (PanicError (Err ''open failed''))"
  by (simp add: example_defs handler_defs headers_of_def)

text \<open>No path of the download handler closes the reader.\<close>

lemma send_file_no_close: "Reader_Close \<notin> set (fst (send_file b werr k rd))"
  by (induction b werr k rd rule: send_file.induct)
     (auto simp: internal_error_def http_Error_def split: option.splits go_error.splits prod.splits)

lemma download_reader_never_closed:
  "Reader_Close \<notin> set (trace (handleGetRequest h werr req))"
proof -
  have "Reader_Close \<notin> set t" if "send_file (BufferSize h) werr 0 rd = (t, out)" for rd t out
    using send_file_no_close[of "BufferSize h" werr 0 rd] that by simp
  then show ?thesis
    unfolding handleGetRequest_def
    by (auto simp: Let_def outgoing_calls internal_error_def http_NotFound_def http_Error_def
        split: sum.splits option.splits prod.splits)
qed

text \<open>
  Claim C7 does not hold of the code for the read source: the download handler acquires
  the reader and never closes it. In this download, which ends normally after six bytes,
  the reader is acquired and read to its end, and no \<^verbatim>\<open>Close\<close> is among the calls.
\<close>

theorem download_reader_not_closed:
  "handleGetRequest
       (example_handler (new_entry (Inr sound_writer)) (stored_entry ''tag1'' (Inr six_bytes)))
       sound_writer (get_request [] ''abc123.png'') =
     \<lparr>trace =
        [W (Header_Set ''Access-Control-Allow-Origin'' ''*''),
         Call_LoadStorageEntry ''abc123'', Call_GetReader,
         W (Header_Set ''Content-Disposition'' (dispositionValue ''inline'' ''photo.png'')),
         W (Header_Set ''Content-Type'' ''Image/PNG''),
         W (Header_Set ''ETag'' ''tag1''), W (WriteHeader 200),
         Reader_Read ''0123'' None, W (Write ''0123''),
         Reader_Read ''45'' (Some EOF), W (Write ''45''),
         Reader_Read [] (Some EOF)],
      outcome = Returned\<rparr> \<and>
   Call_GetReader \<in> set (trace (handleGetRequest
       (example_handler (new_entry (Inr sound_writer)) (stored_entry ''tag1'' (Inr six_bytes)))
       sound_writer (get_request [] ''abc123.png''))) \<and>
   Reader_Close \<notin> set (trace (handleGetRequest
       (example_handler (new_entry (Inr sound_writer)) (stored_entry ''tag1'' (Inr six_bytes)))
       sound_writer (get_request [] ''abc123.png'')))"
  by (simp add: example_defs handler_defs)

end
